theory Spec2Isabelle
  imports Main
begin

section \<open>Python values used by the two data managers\<close>

text \<open>
  Exceptions are values. \<open>SystemExit\<close> derives from \<open>BaseException\<close> only, so a handler
  \<open>except Exception\<close> lets it pass; every other class below derives from \<open>Exception\<close>.
\<close>

datatype exn = OSError | ValueError | KeyError | TypeError | CalledProcessError int | SystemExit int

fun is_Exception :: "exn \<Rightarrow> bool" where
  "is_Exception (SystemExit c) = False"
| "is_Exception e = True"

text \<open>
  \<open>subprocess.run(cmd, check=True)\<close>: the program either cannot be started (an
  \<open>OSError\<close>) or runs and returns a status; a nonzero status raises
  \<open>CalledProcessError\<close>.
\<close>

datatype proc_result = NotStarted | Returned int

definition subprocess_run_check :: "proc_result \<Rightarrow> exn option" where
  "subprocess_run_check r =
     (case r of
        NotStarted \<Rightarrow> Some OSError
      | Returned c \<Rightarrow> if c = 0 then None else Some (CalledProcessError c))"

text \<open>
  The document handed to \<open>json.dump\<close>. A Python dict is an association list in insertion
  order; \<open>json.dump(entry, fh, indent=2, sort_keys=True)\<close> is a function of this value,
  so equal documents are equal files.
\<close>

datatype json = JNull | JStr string | JList "json list" | JDict "(string \<times> json) list"

text \<open>What an f-string prints for an attribute that may still be \<open>None\<close>.\<close>

definition py_str :: "string option \<Rightarrow> string" where
  "py_str v = (case v of None \<Rightarrow> ''None'' | Some s \<Rightarrow> s)"

definition py_json :: "string option \<Rightarrow> json" where
  "py_json v = (case v of None \<Rightarrow> JNull | Some s \<Rightarrow> JStr s)"

subsection \<open>Strings\<close>

definition startswith :: "string \<Rightarrow> string \<Rightarrow> bool" where
  "startswith s p = (take (length p) s = p)"

definition endswith :: "string \<Rightarrow> string \<Rightarrow> bool" where
  "endswith s p = (length p \<le> length s \<and> drop (length s - length p) s = p)"

text \<open>\<open>needle in hay\<close> on strings: \<open>needle\<close> occurs at some position of \<open>hay\<close>.\<close>

fun py_in :: "string \<Rightarrow> string \<Rightarrow> bool" where
  "py_in needle [] = (needle = [])"
| "py_in needle (c # cs) = (startswith (c # cs) needle \<or> py_in needle cs)"

text \<open>
  \<open>str.isspace\<close> on the code points below 256, and \<open>str.strip()\<close> with no argument.
\<close>

definition isspace :: "char \<Rightarrow> bool" where
  "isspace c = (of_char c \<in> set [9, 10, 11, 12, 13, 28, 29, 30, 31, 32, 133, 160 :: nat])"

definition strip :: "string \<Rightarrow> string" where
  "strip s = rev (dropWhile isspace (rev (dropWhile isspace s)))"

text \<open>
  \<open>f.readline()\<close> on a freshly opened text file: everything up to and including the
  first newline (the text is what the file yields after newline translation).
\<close>

fun readline :: "string \<Rightarrow> string" where
  "readline [] = []"
| "readline (c # cs) = (if c = CHR 0x0A then [c] else c # readline cs)"

definition path_join :: "string \<Rightarrow> string \<Rightarrow> string" where
  "path_join p q = p @ ''/'' @ q"

subsection \<open>The host and the run log\<close>

text \<open>
  The job file the host passes on the command line: it cannot be opened, is not JSON,
  lacks \<open>output_data[0].extra_files_path\<close>, or carries that path.
\<close>

datatype job_json = No_file | Bad_json | No_key | Params string

datatype stage =
    Read_input_json | Run_amrfinder_update | Read_versions | Copy_database | Cleanup
  | Write_output_json | Download_pubmlst_databases | Make_blast_database
  | Download_scheme_species_map

text \<open>
  The log records every method a run enters and every document written to the catalog
  file (\<open>Dump path doc\<close>: the file at \<open>path\<close> now holds exactly \<open>doc\<close>).
\<close>

datatype event = Call stage | Dump string json

record host_env =
  job_file :: job_json
  can_mkdir :: "string \<Rightarrow> bool"

record manager =
  json_path :: string
  extra_files_path :: "string option"
  output_dir :: "string option"
  db_name :: string
  log :: "event list"

definition enter :: "stage \<Rightarrow> ('a manager_scheme) \<Rightarrow> ('a manager_scheme)" where
  "enter m s = s\<lparr>log := log s @ [Call m]\<rparr>"

text \<open>Statement sequencing: the next statement runs only if nothing was raised.\<close>

definition then_do ::
  "exn option \<times> 's \<Rightarrow> ('s \<Rightarrow> exn option \<times> 's) \<Rightarrow> exn option \<times> 's" where
  "then_do r f = (case r of (None, s) \<Rightarrow> f s | (Some e, s) \<Rightarrow> (Some e, s))"

text \<open>
  \<open>try: body / except Exception: handler / finally: final\<close>, for a handler and a
  finaliser that do not raise. The result is the exception still propagating, if any.
\<close>

definition try_except_finally ::
  "('s \<Rightarrow> exn option \<times> 's) \<Rightarrow> ('s \<Rightarrow> 's) \<Rightarrow> ('s \<Rightarrow> 's) \<Rightarrow> 's \<Rightarrow> exn option \<times> 's" where
  "try_except_finally body handler final s =
     (case body s of
        (None, s1) \<Rightarrow> (None, final s1)
      | (Some e, s1) \<Rightarrow>
          if is_Exception e then (None, final (handler s1)) else (Some e, final s1))"

text \<open>
  The status of the process after \<open>main()\<close>: 0 when \<open>run\<close> returns, the argument of
  \<open>SystemExit\<close> when that propagates, 1 for any other uncaught exception.
\<close>

definition exit_status :: "exn option \<Rightarrow> int" where
  "exit_status r = (case r of None \<Rightarrow> 0 | Some (SystemExit c) \<Rightarrow> c | Some e \<Rightarrow> 1)"

definition dumps :: "event list \<Rightarrow> (string \<times> json) list" where
  "dumps l = concat (map (\<lambda>e. case e of Dump p d \<Rightarrow> [(p, d)] | Call m \<Rightarrow> []) l)"

definition calls :: "stage \<Rightarrow> event list \<Rightarrow> nat" where
  "calls m l = length (filter (\<lambda>e. e = Call m) l)"

section \<open>AmrFinderPlusDataManager\<close>

record amr_env = host_env +
  amrfinder_update :: proc_result
  version_txt :: "string option"
  database_format_version_txt :: "string option"
  copytree_ok :: bool

record amr = manager +
  version :: "string option"
  dbformat :: "string option"

definition amr_init :: "string \<Rightarrow> amr" where
  "amr_init p =
     \<lparr>json_path = p, extra_files_path = None, output_dir = None,
      db_name = ''amrfinderplus-db'', log = [], version = None, dbformat = None\<rparr>"

definition amr_read_input_json :: "amr_env \<Rightarrow> amr \<Rightarrow> exn option \<times> amr" where
  "amr_read_input_json env s0 =
     (let s = enter Read_input_json s0 in
      case job_file env of
        No_file \<Rightarrow> (Some OSError, s)
      | Bad_json \<Rightarrow> (Some ValueError, s)
      | No_key \<Rightarrow> (Some KeyError, s)
      | Params p \<Rightarrow>
          (let s1 = s\<lparr>extra_files_path := Some p\<rparr> in
           if \<not> can_mkdir env p then (Some OSError, s1)
           else
             (let d = path_join p ''tmp_download'';
                  s2 = s1\<lparr>output_dir := Some d\<rparr>
              in if \<not> can_mkdir env d then (Some OSError, s2) else (None, s2))))"

text \<open>
  \<open>write_output_json\<close> builds the entry from the attributes and overwrites the job
  file with it. The job file is the one the host created for the run; opening it for
  writing is taken to succeed.
\<close>

definition amr_write_output_json :: "amr \<Rightarrow> amr" where
  "amr_write_output_json s0 =
     (let s = enter Write_output_json s0;
          entry =
            JDict [(''data_tables'',
              JDict [(''amrfinderplus_versioned_database'',
                JList [JDict
                  [(''value'', JStr (''amrfinderplus_'' @ py_str (version s) @ ''_''
                                      @ py_str (dbformat s))),
                   (''name'', JStr (py_str (version s) @ '' ('' @ py_str (dbformat s) @ '')'')),
                   (''db_version'', py_json (dbformat s)),
                   (''path'', JStr (db_name s))]])])]
      in s\<lparr>log := log s @ [Dump (json_path s) entry]\<rparr>)"

definition run_amrfinder_update :: "amr_env \<Rightarrow> amr \<Rightarrow> exn option \<times> amr" where
  "run_amrfinder_update env s0 =
     (let s = enter Run_amrfinder_update s0
      in (subprocess_run_check (amrfinder_update env), s))"

definition read_versions :: "amr_env \<Rightarrow> amr \<Rightarrow> exn option \<times> amr" where
  "read_versions env s0 =
     (let s = enter Read_versions s0 in
      case output_dir s of
        None \<Rightarrow> (Some TypeError, s)
      | Some d \<Rightarrow>
          (case version_txt env of
             None \<Rightarrow> (Some OSError, s)
           | Some f \<Rightarrow>
               (let s1 = s\<lparr>version := Some (strip (readline f))\<rparr> in
                case database_format_version_txt env of
                  None \<Rightarrow> (Some OSError, s1)
                | Some g \<Rightarrow> (None, s1\<lparr>dbformat := Some (strip (readline g))\<rparr>))))"

definition copy_database :: "amr_env \<Rightarrow> amr \<Rightarrow> exn option \<times> amr" where
  "copy_database env s0 =
     (let s = enter Copy_database s0 in
      case output_dir s of
        None \<Rightarrow> (Some TypeError, s)
      | Some d \<Rightarrow>
          (case extra_files_path s of
             None \<Rightarrow> (Some TypeError, s)
           | Some x \<Rightarrow> if copytree_ok env then (None, s) else (Some OSError, s)))"

text \<open>
  \<open>shutil.rmtree(self.output_dir, ignore_errors=True)\<close>: the removal hands its errors
  to a handler that does nothing, so cleanup returns normally whatever \<open>output_dir\<close>
  holds, also when it is still \<open>None\<close> because the job file could not be read.
\<close>

definition cleanup :: "amr \<Rightarrow> amr" where
  "cleanup s = enter Cleanup s"

definition amr_body :: "amr_env \<Rightarrow> amr \<Rightarrow> exn option \<times> amr" where
  "amr_body env s =
     then_do (then_do (then_do (amr_read_input_json env s) (run_amrfinder_update env))
                (read_versions env)) (copy_database env)"

definition amr_run :: "amr_env \<Rightarrow> amr \<Rightarrow> exn option \<times> amr" where
  "amr_run env =
     try_except_finally (amr_body env)
       (\<lambda>s. s\<lparr>version := Some ''unknown'', dbformat := Some ''unknown''\<rparr>)
       (\<lambda>s. amr_write_output_json (cleanup s))"

definition amr_main :: "amr_env \<Rightarrow> string \<Rightarrow> int \<times> amr" where
  "amr_main env p = (case amr_run env (amr_init p) of (r, s) \<Rightarrow> (exit_status r, s))"

section \<open>MLSTDataManager\<close>

subsection \<open>The clock\<close>

text \<open>
  \<open>datetime.datetime.now().strftime("%Y%m%d_%H%M%S")\<close>: the fields of the instant in
  decimal, padded with zeros to 4, 2, 2, 2, 2 and 2 digits; the microseconds are not
  printed. The clock's year has four digits.
\<close>

record datetime =
  year :: nat
  month :: nat
  day :: nat
  hour :: nat
  minute :: nat
  second :: nat
  microsecond :: nat

definition digit :: "nat \<Rightarrow> char" where
  "digit n = ''0123456789'' ! (n mod 10)"

definition two_digits :: "nat \<Rightarrow> string" where
  "two_digits n = [digit (n div 10), digit n]"

definition four_digits :: "nat \<Rightarrow> string" where
  "four_digits n = [digit (n div 1000), digit (n div 100), digit (n div 10), digit n]"

definition strftime :: "datetime \<Rightarrow> string" where
  "strftime t =
     four_digits (year t) @ two_digits (month t) @ two_digits (day t) @ ''_''
     @ two_digits (hour t) @ two_digits (minute t) @ two_digits (second t)"

subsection \<open>The directories the merge reads and writes\<close>

text \<open>
  An entry of a scheme directory is a file, given by the lines that iterating over it
  yields (each with its line end), or a directory, which \<open>open\<close> refuses. An entry of
  the \<open>pubmlst\<close> directory is a scheme directory or something else. Listings are in the
  order \<open>os.listdir\<close> returns them.
\<close>

datatype dirent = File "string list" | Subdir

datatype node = Plain | Scheme "(string \<times> dirent) list"

type_synonym raw_bundle = "(string \<times> node) list"

text \<open>
  The part of the file system a run touches: \<open>src_dir\<close> is \<open>pubmlst\<close> under the
  working directory, \<open>dst_dir\<close> is \<open>pubmlst\<close> under the output directory,
  \<open>blast_file\<close> is \<open>blast/mlst.fa\<close> there and \<open>species_map\<close> is
  \<open>scheme_species_map.tab\<close>; \<open>None\<close> is a path that does not exist. The working
  directory and the output directory are different directories.
\<close>

record disk =
  src_dir :: "raw_bundle option"
  dst_dir :: "raw_bundle option"
  blast_file :: "string option"
  species_map :: "string option"

record mlst_env = host_env +
  mlst_download_pub_mlst :: proc_result
  downloaded :: "raw_bundle option"
  makeblastdb :: proc_result
  urlopen :: "string option"

record mlst = manager +
  timestamp :: string
  files :: disk

definition mlst_init :: "string \<Rightarrow> datetime \<Rightarrow> disk \<Rightarrow> mlst" where
  "mlst_init p now d =
     \<lparr>json_path = p, extra_files_path = None, output_dir = None,
      db_name = ''mlst_database_'' @ strftime now, log = [],
      timestamp = strftime now, files = d\<rparr>"

text \<open>
  The host passes \<open>extra_files_path\<close> as an absolute path, which \<open>os.path.abspath\<close>
  returns as it is.
\<close>

definition mlst_read_input_json :: "mlst_env \<Rightarrow> mlst \<Rightarrow> exn option \<times> mlst" where
  "mlst_read_input_json env s0 =
     (let s = enter Read_input_json s0 in
      case job_file env of
        No_file \<Rightarrow> (Some OSError, s)
      | Bad_json \<Rightarrow> (Some ValueError, s)
      | No_key \<Rightarrow> (Some KeyError, s)
      | Params p \<Rightarrow>
          (let s1 = s\<lparr>extra_files_path := Some p\<rparr> in
           if \<not> can_mkdir env p then (Some OSError, s1)
           else (None, s1\<lparr>output_dir := Some p\<rparr>)))"

definition mlst_write_output_json :: "mlst \<Rightarrow> mlst" where
  "mlst_write_output_json s0 =
     (let s = enter Write_output_json s0;
          entry =
            JDict [(''data_tables'',
              JDict [(''mlst'',
                JList [JDict
                  [(''value'', JStr (db_name s)),
                   (''name'', JStr (db_name s)),
                   (''path'', JStr ''mlst-db'')]])])]
      in s\<lparr>log := log s @ [Dump (json_path s) entry]\<rparr>)"

text \<open>
  The downloader leaves \<open>downloaded env\<close> as \<open>pubmlst\<close> under the working directory
  when it runs. A nonzero status is caught and turned into \<open>sys.exit(1)\<close>; a
  program that cannot be started raises \<open>OSError\<close>, which this method does not catch.
\<close>

definition download_pubmlst_databases :: "mlst_env \<Rightarrow> mlst \<Rightarrow> exn option \<times> mlst" where
  "download_pubmlst_databases env s0 =
     (let s = enter Download_pubmlst_databases s0 in
      case mlst_download_pub_mlst env of
        NotStarted \<Rightarrow> (Some OSError, s)
      | Returned c \<Rightarrow>
          (let s1 = s\<lparr>files := (files s)\<lparr>src_dir := downloaded env\<rparr>\<rparr> in
           case subprocess_run_check (Returned c) of
             None \<Rightarrow> (None, s1)
           | Some (CalledProcessError k) \<Rightarrow> (Some (SystemExit 1), s1)
           | Some e \<Rightarrow> (Some e, s1)))"

text \<open>The body of the innermost loop: what one line of a \<open>.tfa\<close> file writes.\<close>

definition write_line :: "string \<Rightarrow> string \<Rightarrow> string list" where
  "write_line scheme line =
     (if \<not> py_in ''not a locus'' line then
        (if startswith line ''>'' then [''>'' @ scheme @ ''.'' @ drop 1 line] else [line])
      else [])"

fun merge_lines :: "string \<Rightarrow> string list \<Rightarrow> string list" where
  "merge_lines scheme [] = []"
| "merge_lines scheme (line # rest) = write_line scheme line @ merge_lines scheme rest"

text \<open>
  The loops over the entries of one scheme directory and over the schemes: the strings
  written so far, and the exception that stopped the loop, if any.
\<close>

fun merge_files :: "string \<Rightarrow> (string \<times> dirent) list \<Rightarrow> string list \<times> exn option" where
  "merge_files scheme [] = ([], None)"
| "merge_files scheme ((f, e) # rest) =
     (if endswith f ''.tfa'' then
        (case e of
           Subdir \<Rightarrow> ([], Some OSError)
         | File ls \<Rightarrow>
             (case merge_files scheme rest of (out, r) \<Rightarrow> (merge_lines scheme ls @ out, r)))
      else merge_files scheme rest)"

fun merge_schemes :: "raw_bundle \<Rightarrow> string list \<times> exn option" where
  "merge_schemes [] = ([], None)"
| "merge_schemes ((scheme, n) # rest) =
     (case n of
        Plain \<Rightarrow> merge_schemes rest
      | Scheme fs \<Rightarrow>
          (case merge_files scheme fs of
             (out, Some e) \<Rightarrow> (out, Some e)
           | (out, None) \<Rightarrow>
               (case merge_schemes rest of (out', r) \<Rightarrow> (out @ out', r))))"

text \<open>
  \<open>make_blast_database\<close>: a stale \<open>dst_dir\<close> is removed, \<open>src_dir\<close> is moved there
  (which raises when there is none), and the combined file is opened in append mode, so
  what the loops write follows whatever the file already holds. The indexer runs only
  if the loops finished.
\<close>

definition make_blast_database :: "mlst_env \<Rightarrow> mlst \<Rightarrow> exn option \<times> mlst" where
  "make_blast_database env s0 =
     (let s = enter Make_blast_database s0 in
      case output_dir s of
        None \<Rightarrow> (Some TypeError, s)
      | Some out \<Rightarrow>
          (let d1 = (files s)\<lparr>dst_dir := None\<rparr> in
           case src_dir d1 of
             None \<Rightarrow> (Some OSError, s\<lparr>files := d1\<rparr>)
           | Some b \<Rightarrow>
               (let d2 = d1\<lparr>src_dir := None, dst_dir := Some b\<rparr> in
                if \<not> can_mkdir env (path_join out ''blast'') then (Some OSError, s\<lparr>files := d2\<rparr>)
                else
                  (case merge_schemes b of (written, r) \<Rightarrow>
                     (let old = (case blast_file d2 of None \<Rightarrow> [] | Some t \<Rightarrow> t);
                          d3 = d2\<lparr>blast_file := Some (old @ concat written)\<rparr>;
                          s3 = s\<lparr>files := d3\<rparr>
                      in case r of
                           Some e \<Rightarrow> (Some e, s3)
                         | None \<Rightarrow> (subprocess_run_check (makeblastdb env), s3))))))"

text \<open>
  \<open>download_scheme_species_map\<close>: the path is built outside the \<open>try\<close>; a failed fetch
  is printed and swallowed.
\<close>

definition download_scheme_species_map :: "mlst_env \<Rightarrow> mlst \<Rightarrow> exn option \<times> mlst" where
  "download_scheme_species_map env s0 =
     (let s = enter Download_scheme_species_map s0 in
      case output_dir s of
        None \<Rightarrow> (Some TypeError, s)
      | Some out \<Rightarrow>
          (case urlopen env of
             None \<Rightarrow> (None, s)
           | Some t \<Rightarrow> (None, s\<lparr>files := (files s)\<lparr>species_map := Some t\<rparr>\<rparr>)))"

definition mlst_body :: "mlst_env \<Rightarrow> mlst \<Rightarrow> exn option \<times> mlst" where
  "mlst_body env s =
     then_do (then_do (then_do (mlst_read_input_json env s) (download_pubmlst_databases env))
                (make_blast_database env)) (download_scheme_species_map env)"

definition mlst_run :: "mlst_env \<Rightarrow> mlst \<Rightarrow> exn option \<times> mlst" where
  "mlst_run env = try_except_finally (mlst_body env) (\<lambda>s. s) mlst_write_output_json"

definition mlst_main :: "mlst_env \<Rightarrow> string \<Rightarrow> datetime \<Rightarrow> disk \<Rightarrow> int \<times> mlst" where
  "mlst_main env p now d =
     (case mlst_run env (mlst_init p now d) of (r, s) \<Rightarrow> (exit_status r, s))"

section \<open>Observations used to state the properties\<close>

text \<open>
  The fields of the single entry of a catalog document
  \<open>{"data_tables": {table: [entry]}}\<close>.
\<close>

fun entry_fields :: "json \<Rightarrow> (string \<times> json) list" where
  "entry_fields (JDict [(k, JDict [(t, JList [JDict fs])])]) = fs"
| "entry_fields j = []"

text \<open>The \<open>value\<close> field of every catalog document a run wrote, in order.\<close>

definition catalog_values :: "event list \<Rightarrow> json option list" where
  "catalog_values l = map (\<lambda>(p, doc). map_of (entry_fields doc) ''value'') (dumps l)"

text \<open>
  Records as the specification describes them: an identifier line starts with \<open>>\<close>, and
  the lines after it up to the next identifier line are its body. The source has no
  such notion; \<open>spec_records\<close> follows the specification's wording and is used only to
  state what it says about whole records.
\<close>

fun spec_records :: "string list \<Rightarrow> (string \<times> string list) list" where
  "spec_records [] = []"
| "spec_records (l # ls) =
     (if startswith l ''>'' then
        (l, takeWhile (\<lambda>x. \<not> startswith x ''>'') ls) # spec_records ls
      else spec_records ls)"

subsection \<open>Sample inputs\<close>

definition amr_env_ok :: amr_env where
  "amr_env_ok =
     \<lparr>job_file = Params ''/tmp/x'', can_mkdir = (\<lambda>p. True),
      amrfinder_update = Returned 0,
      version_txt = Some ''3.12\<newline>'',
      database_format_version_txt = Some ''2024-01-01.1\<newline>'',
      copytree_ok = True\<rparr>"

definition amr_env_update_fails :: amr_env where
  "amr_env_update_fails = amr_env_ok\<lparr>amrfinder_update := Returned 1\<rparr>"

definition amr_env_no_version :: amr_env where
  "amr_env_no_version = amr_env_ok\<lparr>version_txt := None\<rparr>"

definition amr_env_other_job :: amr_env where
  "amr_env_other_job = amr_env_ok\<lparr>job_file := Params ''/tmp/y''\<rparr>"

definition amr_env_no_job_file :: amr_env where
  "amr_env_no_job_file = amr_env_ok\<lparr>job_file := No_file\<rparr>"

definition adk_tfa :: "string list" where
  "adk_tfa = [''>adk_1\<newline>'', ''GGGGAAAGGGACTC\<newline>'', ''NNNN not a locus\<newline>'']"

definition sample_bundle :: raw_bundle where
  "sample_bundle =
     [(''ecoli'', Scheme [(''adk.tfa'', File adk_tfa), (''ecoli.txt'', File [''ST adk\<newline>''])]),
      (''dbases.xml'', Plain)]"

definition empty_disk :: disk where
  "empty_disk = \<lparr>src_dir = None, dst_dir = None, blast_file = None, species_map = None\<rparr>"

definition mlst_env_ok :: mlst_env where
  "mlst_env_ok =
     \<lparr>job_file = Params ''/tmp/x'', can_mkdir = (\<lambda>p. True),
      mlst_download_pub_mlst = Returned 0, downloaded = Some sample_bundle,
      makeblastdb = Returned 0, urlopen = Some ''ecoli\<newline>''\<rparr>"

definition mlst_env_download_fails :: mlst_env where
  "mlst_env_download_fails = mlst_env_ok\<lparr>mlst_download_pub_mlst := Returned 2, downloaded := None\<rparr>"

definition mlst_env_not_started :: mlst_env where
  "mlst_env_not_started = mlst_env_ok\<lparr>mlst_download_pub_mlst := NotStarted, downloaded := None\<rparr>"

definition noon :: datetime where
  "noon = \<lparr>year = 2024, month = 3, day = 7, hour = 12, minute = 0, second = 5, microsecond = 0\<rparr>"

definition one_o_clock :: datetime where
  "one_o_clock = noon\<lparr>hour := 13, second := 0\<rparr>"

definition just_after_noon :: datetime where
  "just_after_noon = noon\<lparr>microsecond := 250000\<rparr>"

section \<open>Properties of the control flow\<close>

subsection \<open>Control-flow combinators\<close>

lemma snd_then_do_pres:
  assumes "\<And>s. g (snd (f s)) = g s"
  shows "g (snd (then_do r f)) = g (snd r)"
  using assms by (cases r) (auto simp: then_do_def split: option.splits)

lemma fst_then_do:
  "fst (then_do r f) = (case fst r of None \<Rightarrow> fst (f (snd r)) | Some e \<Rightarrow> Some e)"
  by (cases r) (auto simp: then_do_def split: option.splits)

lemma snd_try_except_finally:
  "snd (try_except_finally body handler final s) =
     final (case fst (body s) of
              None \<Rightarrow> snd (body s)
            | Some e \<Rightarrow> if is_Exception e then handler (snd (body s)) else snd (body s))"
  by (cases "body s") (auto simp: try_except_finally_def split: option.splits)

lemma fst_try_except_finally:
  "fst (try_except_finally body handler final s) =
     (case fst (body s) of
        None \<Rightarrow> None
      | Some e \<Rightarrow> if is_Exception e then None else Some e)"
  by (cases "body s") (auto simp: try_except_finally_def split: option.splits)

lemma dumps_simps:
  "dumps [] = []"
  "dumps (Call m # l) = dumps l"
  "dumps (Dump p d # l) = (p, d) # dumps l"
  "dumps (xs @ ys) = dumps xs @ dumps ys"
  by (simp_all add: dumps_def)

lemma calls_simps:
  "calls m [] = 0"
  "calls m (Call m' # l) = (if m' = m then 1 else 0) + calls m l"
  "calls m (Dump p d # l) = calls m l"
  "calls m (xs @ ys) = calls m xs + calls m ys"
  by (simp_all add: calls_def)

subsection \<open>The merge loops\<close>

lemma merge_files_error: "snd (merge_files scheme fs) = Some e \<Longrightarrow> e = OSError"
  by (induction scheme fs rule: merge_files.induct)
     (auto split: if_splits dirent.splits prod.splits)

lemma merge_schemes_error: "snd (merge_schemes b) = Some e \<Longrightarrow> e = OSError"
proof (induction b rule: merge_schemes.induct)
  case 1
  then show ?case by simp
next
  case (2 scheme n rest)
  show ?case
  proof (cases n)
    case Plain
    with 2 show ?thesis by simp
  next
    case (Scheme fs)
    obtain out r where m: "merge_files scheme fs = (out, r)"
      by (cases "merge_files scheme fs")
    show ?thesis
    proof (cases r)
      case None
      with 2 Scheme m show ?thesis
        by (auto split: prod.splits)
    next
      case (Some e')
      with "2.prems" Scheme m have "e = e'" by simp
      moreover from m Some have "e' = OSError"
        using merge_files_error[of scheme fs e'] by simp
      ultimately show ?thesis by simp
    qed
  qed
qed

subsection \<open>Stages of the MLST run\<close>

lemma mlst_read_input_json_pres:
  "json_path (snd (mlst_read_input_json env s)) = json_path s"
  "db_name (snd (mlst_read_input_json env s)) = db_name s"
  "log (snd (mlst_read_input_json env s)) = log s @ [Call Read_input_json]"
  by (auto simp: mlst_read_input_json_def enter_def Let_def split: job_json.splits)

lemma download_pubmlst_databases_pres:
  "json_path (snd (download_pubmlst_databases env s)) = json_path s"
  "db_name (snd (download_pubmlst_databases env s)) = db_name s"
  "log (snd (download_pubmlst_databases env s)) = log s @ [Call Download_pubmlst_databases]"
  by (auto simp: download_pubmlst_databases_def enter_def Let_def subprocess_run_check_def
      split: proc_result.splits)

lemma make_blast_database_pres:
  "json_path (snd (make_blast_database env s)) = json_path s"
  "db_name (snd (make_blast_database env s)) = db_name s"
  "log (snd (make_blast_database env s)) = log s @ [Call Make_blast_database]"
  by (auto simp: make_blast_database_def enter_def Let_def
      split: option.splits prod.splits)

lemma download_scheme_species_map_pres:
  "json_path (snd (download_scheme_species_map env s)) = json_path s"
  "db_name (snd (download_scheme_species_map env s)) = db_name s"
  "log (snd (download_scheme_species_map env s)) = log s @ [Call Download_scheme_species_map]"
  by (auto simp: download_scheme_species_map_def enter_def Let_def split: option.splits)

lemma mlst_body_json_path: "json_path (snd (mlst_body env s)) = json_path s"
  unfolding mlst_body_def
  by (simp add: snd_then_do_pres[where g = json_path] mlst_read_input_json_pres
      download_pubmlst_databases_pres make_blast_database_pres download_scheme_species_map_pres)

lemma mlst_body_db_name: "db_name (snd (mlst_body env s)) = db_name s"
  unfolding mlst_body_def
  by (simp add: snd_then_do_pres[where g = db_name] mlst_read_input_json_pres
      download_pubmlst_databases_pres make_blast_database_pres download_scheme_species_map_pres)

lemma mlst_body_dumps: "dumps (log (snd (mlst_body env s))) = dumps (log s)"
  unfolding mlst_body_def
  by (simp add: snd_then_do_pres[where g = "\<lambda>s. dumps (log s)"] mlst_read_input_json_pres
      download_pubmlst_databases_pres make_blast_database_pres download_scheme_species_map_pres
      dumps_simps)

lemma mlst_body_calls:
  "calls Write_output_json (log (snd (mlst_body env s))) = calls Write_output_json (log s)"
  unfolding mlst_body_def
  by (simp add: snd_then_do_pres[where g = "\<lambda>s. calls Write_output_json (log s)"]
      mlst_read_input_json_pres download_pubmlst_databases_pres make_blast_database_pres
      download_scheme_species_map_pres calls_simps)

lemma mlst_init_log: "log (mlst_init p now d) = []"
  by (simp add: mlst_init_def)

lemma mlst_main_state:
  "snd (mlst_main env p now d) = mlst_write_output_json (snd (mlst_body env (mlst_init p now d)))"
  by (simp add: mlst_main_def mlst_run_def split_beta snd_try_except_finally split: option.splits)

lemma mlst_main_log:
  "log (snd (mlst_main env p now d)) =
     log (snd (mlst_body env (mlst_init p now d))) @
     [Call Write_output_json,
      Dump p (JDict [(''data_tables'',
              JDict [(''mlst'',
                JList [JDict
                  [(''value'', JStr (''mlst_database_'' @ strftime now)),
                   (''name'', JStr (''mlst_database_'' @ strftime now)),
                   (''path'', JStr ''mlst-db'')]])])])]"
  by (simp add: mlst_main_state mlst_write_output_json_def Let_def enter_def
      mlst_body_json_path mlst_body_db_name mlst_init_def)

lemma mlst_main_dumps:
  "dumps (log (snd (mlst_main env p now d))) =
     [(p, JDict [(''data_tables'',
              JDict [(''mlst'',
                JList [JDict
                  [(''value'', JStr (''mlst_database_'' @ strftime now)),
                   (''name'', JStr (''mlst_database_'' @ strftime now)),
                   (''path'', JStr ''mlst-db'')]])])])]"
  by (simp add: mlst_main_log dumps_simps mlst_body_dumps mlst_init_log)

lemma mlst_main_calls: "calls Write_output_json (log (snd (mlst_main env p now d))) = 1"
  by (simp add: mlst_main_log calls_simps mlst_body_calls mlst_init_log)

lemma mlst_main_last:
  "last (log (snd (mlst_main env p now d))) =
     Dump p (JDict [(''data_tables'',
              JDict [(''mlst'',
                JList [JDict
                  [(''value'', JStr (''mlst_database_'' @ strftime now)),
                   (''name'', JStr (''mlst_database_'' @ strftime now)),
                   (''path'', JStr ''mlst-db'')]])])])"
  by (simp add: mlst_main_log)

subsection \<open>Exceptions leaving the MLST stages\<close>

lemma mlst_read_input_json_fst:
  "fst (mlst_read_input_json env s) =
     (case job_file env of
        No_file \<Rightarrow> Some OSError | Bad_json \<Rightarrow> Some ValueError | No_key \<Rightarrow> Some KeyError
      | Params x \<Rightarrow> if can_mkdir env x then None else Some OSError)"
  by (auto simp: mlst_read_input_json_def Let_def split: job_json.splits)

lemma download_pubmlst_databases_fst:
  "fst (download_pubmlst_databases env s) =
     (case mlst_download_pub_mlst env of
        NotStarted \<Rightarrow> Some OSError
      | Returned c \<Rightarrow> if c = 0 then None else Some (SystemExit 1))"
  by (auto simp: download_pubmlst_databases_def Let_def subprocess_run_check_def
      split: proc_result.splits)

lemma make_blast_database_fst:
  "fst (make_blast_database env s) = Some e \<Longrightarrow> is_Exception e"
proof -
  assume a: "fst (make_blast_database env s) = Some e"
  have m: "\<And>b out. merge_schemes b = (out, Some e) \<Longrightarrow> is_Exception e"
  proof -
    fix b out
    assume "merge_schemes b = (out, Some e)"
    then have "snd (merge_schemes b) = Some e" by simp
    then have "e = OSError" by (rule merge_schemes_error)
    then show "is_Exception e" by simp
  qed
  from a show ?thesis
    by (auto simp: make_blast_database_def Let_def subprocess_run_check_def
        split: option.splits prod.splits proc_result.splits if_splits dest: m)
qed

lemma download_scheme_species_map_fst:
  "fst (download_scheme_species_map env s) = Some e \<Longrightarrow> is_Exception e"
  by (auto simp: download_scheme_species_map_def Let_def split: option.splits)


lemma make_blast_database_no_exit: "fst (make_blast_database env s) \<noteq> Some (SystemExit c)"
  using make_blast_database_fst[of env s "SystemExit c"] by auto

lemma download_scheme_species_map_no_exit:
  "fst (download_scheme_species_map env s) \<noteq> Some (SystemExit c)"
  using download_scheme_species_map_fst[of env s "SystemExit c"] by auto

lemma mlst_body_exit:
  "fst (mlst_body env s) = Some (SystemExit c) \<longleftrightarrow>
     c = 1 \<and> (\<exists>x. job_file env = Params x \<and> can_mkdir env x)
     \<and> (\<exists>k. mlst_download_pub_mlst env = Returned k \<and> k \<noteq> 0)"
  unfolding mlst_body_def
  by (auto simp: fst_then_do mlst_read_input_json_fst download_pubmlst_databases_fst
      make_blast_database_no_exit download_scheme_species_map_no_exit
      split: option.splits job_json.splits proc_result.splits if_splits)

lemma exit_status_filtered:
  "exit_status (case r of None \<Rightarrow> None | Some e \<Rightarrow> if is_Exception e then None else Some e) =
     (case r of Some (SystemExit c) \<Rightarrow> c | _ \<Rightarrow> 0)"
  by (auto simp: exit_status_def split: option.splits exn.splits)

lemma mlst_main_exit:
  "fst (mlst_main env p now d) =
     (if (\<exists>x. job_file env = Params x \<and> can_mkdir env x)
         \<and> (\<exists>k. mlst_download_pub_mlst env = Returned k \<and> k \<noteq> 0) then 1 else 0)"
proof -
  let ?r = "fst (mlst_body env (mlst_init p now d))"
  have "fst (mlst_main env p now d) = (case ?r of Some (SystemExit c) \<Rightarrow> c | _ \<Rightarrow> 0)"
    by (simp add: mlst_main_def mlst_run_def split_beta fst_try_except_finally
        exit_status_filtered)
  also have "\<dots> = (if (\<exists>x. job_file env = Params x \<and> can_mkdir env x)
         \<and> (\<exists>k. mlst_download_pub_mlst env = Returned k \<and> k \<noteq> 0) then 1 else 0)"
  proof (cases "(\<exists>x. job_file env = Params x \<and> can_mkdir env x)
         \<and> (\<exists>k. mlst_download_pub_mlst env = Returned k \<and> k \<noteq> 0)")
    case True
    then have "?r = Some (SystemExit 1)"
      by (simp only: mlst_body_exit)
    with True show ?thesis by simp
  next
    case False
    then have "\<And>c. ?r \<noteq> Some (SystemExit c)"
      by (simp add: mlst_body_exit)
    with False show ?thesis
      by (auto split: option.splits exn.splits)
  qed
  finally show ?thesis .
qed

subsection \<open>Stages of the AMRFinderPlus run\<close>

lemma amr_read_input_json_pres:
  "json_path (snd (amr_read_input_json env s)) = json_path s"
  "db_name (snd (amr_read_input_json env s)) = db_name s"
  "log (snd (amr_read_input_json env s)) = log s @ [Call Read_input_json]"
  by (auto simp: amr_read_input_json_def enter_def Let_def split: job_json.splits)

lemma run_amrfinder_update_pres:
  "json_path (snd (run_amrfinder_update env s)) = json_path s"
  "db_name (snd (run_amrfinder_update env s)) = db_name s"
  "log (snd (run_amrfinder_update env s)) = log s @ [Call Run_amrfinder_update]"
  by (auto simp: run_amrfinder_update_def enter_def Let_def)

lemma read_versions_pres:
  "json_path (snd (read_versions env s)) = json_path s"
  "db_name (snd (read_versions env s)) = db_name s"
  "log (snd (read_versions env s)) = log s @ [Call Read_versions]"
  by (auto simp: read_versions_def enter_def Let_def split: option.splits)

lemma copy_database_pres:
  "json_path (snd (copy_database env s)) = json_path s"
  "db_name (snd (copy_database env s)) = db_name s"
  "log (snd (copy_database env s)) = log s @ [Call Copy_database]"
  by (auto simp: copy_database_def enter_def Let_def split: option.splits)

lemmas amr_stage_pres =
  amr_read_input_json_pres run_amrfinder_update_pres read_versions_pres copy_database_pres

lemma amr_body_json_path: "json_path (snd (amr_body env s)) = json_path s"
  unfolding amr_body_def
  by (simp add: snd_then_do_pres[where g = json_path] amr_stage_pres)

lemma amr_body_db_name: "db_name (snd (amr_body env s)) = db_name s"
  unfolding amr_body_def
  by (simp add: snd_then_do_pres[where g = db_name] amr_stage_pres)

lemma amr_body_dumps: "dumps (log (snd (amr_body env s))) = dumps (log s)"
  unfolding amr_body_def
  by (simp add: snd_then_do_pres[where g = "\<lambda>s. dumps (log s)"] amr_stage_pres dumps_simps)

lemma amr_body_calls:
  "calls Write_output_json (log (snd (amr_body env s))) = calls Write_output_json (log s)"
  "calls Cleanup (log (snd (amr_body env s))) = calls Cleanup (log s)"
  unfolding amr_body_def
  by (simp_all add: snd_then_do_pres[where g = "\<lambda>s. calls Write_output_json (log s)"]
      snd_then_do_pres[where g = "\<lambda>s. calls Cleanup (log s)"] amr_stage_pres calls_simps)

lemma amr_body_no_exit: "fst (amr_body env s) = Some e \<Longrightarrow> is_Exception e"
  unfolding amr_body_def
  by (auto simp: fst_then_do amr_read_input_json_def run_amrfinder_update_def
      read_versions_def copy_database_def subprocess_run_check_def Let_def
      split: option.splits job_json.splits proc_result.splits if_splits)

text \<open>The state a run publishes from: the sentinel after a failure, the body's otherwise.\<close>

lemma amr_main_state:
  "snd (amr_main env p) =
     amr_write_output_json (cleanup
       (case fst (amr_body env (amr_init p)) of
          None \<Rightarrow> snd (amr_body env (amr_init p))
        | Some e \<Rightarrow> (snd (amr_body env (amr_init p)))
            \<lparr>version := Some ''unknown'', dbformat := Some ''unknown''\<rparr>))"
  using amr_body_no_exit[of env "amr_init p"]
  by (auto simp add: amr_main_def amr_run_def split_beta snd_try_except_finally
      split: option.splits)

lemma amr_main_exit: "fst (amr_main env p) = 0"
  using amr_body_no_exit[of env "amr_init p"]
  by (auto simp add: amr_main_def amr_run_def split_beta fst_try_except_finally exit_status_def
      split: option.splits)

lemma amr_body_success:
  "fst (amr_body env (amr_init p)) = None \<longleftrightarrow>
     (\<exists>x. job_file env = Params x \<and> can_mkdir env x \<and> can_mkdir env (path_join x ''tmp_download''))
     \<and> amrfinder_update env = Returned 0
     \<and> version_txt env \<noteq> None \<and> database_format_version_txt env \<noteq> None
     \<and> copytree_ok env"
  unfolding amr_body_def
  by (auto simp: fst_then_do then_do_def amr_read_input_json_def run_amrfinder_update_def
      read_versions_def copy_database_def subprocess_run_check_def Let_def enter_def amr_init_def
      split: option.splits job_json.splits proc_result.splits if_splits)

lemma amr_body_versions:
  "fst (amr_body env (amr_init p)) = None \<Longrightarrow>
   version_txt env = Some f \<Longrightarrow> database_format_version_txt env = Some g \<Longrightarrow>
   version (snd (amr_body env (amr_init p))) = Some (strip (readline f)) \<and>
   dbformat (snd (amr_body env (amr_init p))) = Some (strip (readline g))"
  unfolding amr_body_def
  by (auto simp: fst_then_do then_do_def amr_read_input_json_def run_amrfinder_update_def
      read_versions_def copy_database_def subprocess_run_check_def Let_def enter_def amr_init_def
      split: option.splits job_json.splits proc_result.splits if_splits)

lemma amr_init_log: "log (amr_init p) = []" "json_path (amr_init p) = p"
  "db_name (amr_init p) = ''amrfinderplus-db''"
  by (simp_all add: amr_init_def)

lemma amr_publish_log:
  "version s = Some v \<Longrightarrow> dbformat s = Some f \<Longrightarrow>
   log (amr_write_output_json (cleanup s)) =
     log s @ [Call Cleanup, Call Write_output_json,
       Dump (json_path s) (JDict [(''data_tables'',
         JDict [(''amrfinderplus_versioned_database'',
           JList [JDict
             [(''value'', JStr (''amrfinderplus_'' @ v @ ''_'' @ f)),
              (''name'', JStr (v @ '' ('' @ f @ '')'')),
              (''db_version'', JStr f),
              (''path'', JStr (db_name s))]])])])]"
  by (simp add: amr_write_output_json_def cleanup_def enter_def Let_def py_str_def py_json_def)

lemma amr_main_log_failure:
  assumes "fst (amr_body env (amr_init p)) \<noteq> None"
  shows "log (snd (amr_main env p)) =
     log (snd (amr_body env (amr_init p))) @ [Call Cleanup, Call Write_output_json,
       Dump p (JDict [(''data_tables'',
         JDict [(''amrfinderplus_versioned_database'',
           JList [JDict
             [(''value'', JStr ''amrfinderplus_unknown_unknown''),
              (''name'', JStr ''unknown (unknown)''),
              (''db_version'', JStr ''unknown''),
              (''path'', JStr ''amrfinderplus-db'')]])])])]"
proof -
  from assms obtain e where e: "fst (amr_body env (amr_init p)) = Some e" by auto
  let ?s = "(snd (amr_body env (amr_init p)))\<lparr>version := Some ''unknown'', dbformat := Some ''unknown''\<rparr>"
  have "snd (amr_main env p) = amr_write_output_json (cleanup ?s)"
    by (simp add: amr_main_state e)
  moreover have "version ?s = Some ''unknown''" "dbformat ?s = Some ''unknown''" by simp_all
  ultimately show ?thesis
    using amr_publish_log[of ?s "''unknown''" "''unknown''"]
    by (simp add: amr_body_json_path amr_body_db_name amr_init_log)
qed

lemma amr_main_log_success:
  assumes "fst (amr_body env (amr_init p)) = None"
    and "version_txt env = Some f" and "database_format_version_txt env = Some g"
  shows "log (snd (amr_main env p)) =
     log (snd (amr_body env (amr_init p))) @ [Call Cleanup, Call Write_output_json,
       Dump p (JDict [(''data_tables'',
         JDict [(''amrfinderplus_versioned_database'',
           JList [JDict
             [(''value'', JStr (''amrfinderplus_'' @ strip (readline f) @ ''_'' @ strip (readline g))),
              (''name'', JStr (strip (readline f) @ '' ('' @ strip (readline g) @ '')'')),
              (''db_version'', JStr (strip (readline g))),
              (''path'', JStr ''amrfinderplus-db'')]])])])]"
proof -
  let ?s = "snd (amr_body env (amr_init p))"
  have "snd (amr_main env p) = amr_write_output_json (cleanup ?s)"
    by (simp add: amr_main_state assms(1))
  moreover have "version ?s = Some (strip (readline f))" "dbformat ?s = Some (strip (readline g))"
    using amr_body_versions[OF assms] by simp_all
  ultimately show ?thesis
    using amr_publish_log[of ?s "strip (readline f)" "strip (readline g)"]
    by (simp add: amr_body_json_path amr_body_db_name amr_init_log)
qed

lemma amr_main_log_shape:
  "\<exists>doc. log (snd (amr_main env p)) =
     log (snd (amr_body env (amr_init p))) @ [Call Cleanup, Call Write_output_json, Dump p doc]"
proof (cases "fst (amr_body env (amr_init p))")
  case None
  then obtain f g where "version_txt env = Some f" "database_format_version_txt env = Some g"
    using amr_body_success[of env p] by auto
  with None show ?thesis using amr_main_log_success[of env p f g] by simp
next
  case (Some e)
  then show ?thesis using amr_main_log_failure[of env p] by simp
qed

subsection \<open>The merge, line by line\<close>

lemma startswith_gt: "startswith l ''>'' \<longleftrightarrow> (\<exists>rest. l = CHR ''>'' # rest)"
  by (cases l) (auto simp: startswith_def)

lemma write_line_marker: "py_in ''not a locus'' l \<Longrightarrow> write_line scheme l = []"
  by (simp add: write_line_def)

lemma write_line_identifier:
  "\<not> py_in ''not a locus'' (CHR ''>'' # rest) \<Longrightarrow>
   write_line scheme (CHR ''>'' # rest) = [CHR ''>'' # scheme @ ''.'' @ rest]"
  by (simp add: write_line_def startswith_def)

lemma write_line_body:
  "\<not> py_in ''not a locus'' l \<Longrightarrow> \<not> startswith l ''>'' \<Longrightarrow> write_line scheme l = [l]"
  by (simp add: write_line_def)

lemma merge_lines_append:
  "merge_lines scheme (xs @ ys) = merge_lines scheme xs @ merge_lines scheme ys"
  by (induction xs) simp_all

lemma merge_lines_body:
  "\<forall>l\<in>set body. \<not> py_in ''not a locus'' l \<and> \<not> startswith l ''>'' \<Longrightarrow>
   merge_lines scheme body = body"
  by (induction body) (simp_all add: write_line_body)

lemma merge_lines_map_filter:
  "merge_lines scheme ls =
     map (\<lambda>l. if startswith l ''>'' then ''>'' @ scheme @ ''.'' @ drop 1 l else l)
       (filter (\<lambda>l. \<not> py_in ''not a locus'' l) ls)"
  by (induction ls) (simp_all add: write_line_def)

subsection \<open>What the combined file holds\<close>

lemma merge_files_lines:
  "snd (merge_files scheme fs) = None \<Longrightarrow>
   fst (merge_files scheme fs) =
     concat (map (\<lambda>(f, e). case e of
                    File ls \<Rightarrow> if endswith f ''.tfa'' then merge_lines scheme ls else []
                  | Subdir \<Rightarrow> []) fs)"
  by (induction scheme fs rule: merge_files.induct)
     (auto split: if_splits dirent.splits prod.splits)

lemma merge_schemes_lines:
  "snd (merge_schemes b) = None \<Longrightarrow>
   fst (merge_schemes b) =
     concat (map (\<lambda>(scheme, n). case n of
                    Plain \<Rightarrow> []
                  | Scheme fs \<Rightarrow> fst (merge_files scheme fs)) b)"
  by (induction b rule: merge_schemes.induct)
     (auto split: node.splits prod.splits option.splits)

lemma make_blast_database_appends:
  "output_dir s = Some out \<Longrightarrow> src_dir (files s) = Some b \<Longrightarrow>
   can_mkdir env (path_join out ''blast'') \<Longrightarrow>
   blast_file (files (snd (make_blast_database env s))) =
     Some ((case blast_file (files s) of None \<Rightarrow> [] | Some t \<Rightarrow> t)
           @ concat (fst (merge_schemes b)))"
  by (auto simp: make_blast_database_def enter_def Let_def split: prod.splits option.splits)

lemma sample_merge:
  "merge_schemes sample_bundle = ([''>ecoli.adk_1\<newline>'', ''GGGGAAAGGGACTC\<newline>''], None)"
  by (simp add: sample_bundle_def adk_tfa_def endswith_def startswith_def write_line_def)

lemma mlst_ok_run_files:
  "files (snd (mlst_main mlst_env_ok p now d)) =
     d\<lparr>src_dir := None, dst_dir := Some sample_bundle,
       blast_file := Some ((case blast_file d of None \<Rightarrow> [] | Some t \<Rightarrow> t)
                           @ ''>ecoli.adk_1\<newline>GGGGAAAGGGACTC\<newline>''),
       species_map := Some ''ecoli\<newline>''\<rparr>"
  by (simp add: mlst_main_def mlst_run_def try_except_finally_def mlst_body_def then_do_def
      mlst_read_input_json_def download_pubmlst_databases_def make_blast_database_def
      download_scheme_species_map_def mlst_write_output_json_def mlst_init_def enter_def
      Let_def subprocess_run_check_def mlst_env_ok_def sample_merge)

subsection \<open>What an AMRFinderPlus run publishes\<close>

lemma amr_publish_fields:
  "version (amr_write_output_json (cleanup s)) = version s"
  "dbformat (amr_write_output_json (cleanup s)) = dbformat s"
  by (simp_all add: amr_write_output_json_def cleanup_def enter_def Let_def)

lemma amr_main_dumps_failure:
  assumes "fst (amr_body env (amr_init p)) \<noteq> None"
  shows "dumps (log (snd (amr_main env p))) =
     [(p, JDict [(''data_tables'',
         JDict [(''amrfinderplus_versioned_database'',
           JList [JDict
             [(''value'', JStr ''amrfinderplus_unknown_unknown''),
              (''name'', JStr ''unknown (unknown)''),
              (''db_version'', JStr ''unknown''),
              (''path'', JStr ''amrfinderplus-db'')]])])])]"
  by (simp add: amr_main_log_failure[OF assms] dumps_simps amr_body_dumps amr_init_log)

lemma amr_main_descriptor_failure:
  assumes "fst (amr_body env (amr_init p)) \<noteq> None"
  shows "version (snd (amr_main env p)) = Some ''unknown''"
    and "dbformat (snd (amr_main env p)) = Some ''unknown''"
  using assms by (auto simp: amr_main_state amr_publish_fields)

lemma amr_main_dumps_success:
  assumes "fst (amr_body env (amr_init p)) = None"
    and "version_txt env = Some f" and "database_format_version_txt env = Some g"
  shows "dumps (log (snd (amr_main env p))) =
     [(p, JDict [(''data_tables'',
         JDict [(''amrfinderplus_versioned_database'',
           JList [JDict
             [(''value'', JStr (''amrfinderplus_'' @ strip (readline f) @ ''_'' @ strip (readline g))),
              (''name'', JStr (strip (readline f) @ '' ('' @ strip (readline g) @ '')'')),
              (''db_version'', JStr (strip (readline g))),
              (''path'', JStr ''amrfinderplus-db'')]])])])]"
  by (simp add: amr_main_log_success[OF assms] dumps_simps amr_body_dumps amr_init_log)

lemma amr_main_descriptor_success:
  assumes "fst (amr_body env (amr_init p)) = None"
    and "version_txt env = Some f" and "database_format_version_txt env = Some g"
  shows "version (snd (amr_main env p)) = Some (strip (readline f))"
    and "dbformat (snd (amr_main env p)) = Some (strip (readline g))"
  using amr_body_versions[OF assms] assms(1)
  by (auto simp: amr_main_state amr_publish_fields)

lemma strip_readline_samples:
  "strip (readline ''3.12\<newline>'') = ''3.12''"
  "strip (readline ''2024-01-01.1\<newline>'') = ''2024-01-01.1''"
  by (simp_all add: strip_def isspace_def)

lemma amr_env_ok_success: "fst (amr_body amr_env_ok (amr_init p)) = None"
  by (simp add: amr_body_success amr_env_ok_def)

lemma amr_env_other_job_success: "fst (amr_body amr_env_other_job (amr_init p)) = None"
  by (simp add: amr_body_success amr_env_other_job_def amr_env_ok_def)

subsection \<open>What an MLST run publishes\<close>

lemma mlst_main_db_name: "db_name (snd (mlst_main env p now d)) = db_name (mlst_init p now d)"
  by (simp add: mlst_main_state mlst_write_output_json_def Let_def enter_def mlst_body_db_name)

lemma catalog_values_single:
  "dumps l = [(p, JDict [(k, JDict [(t, JList [JDict fs])])])] \<Longrightarrow>
   catalog_values l = [map_of fs ''value'']"
  by (simp add: catalog_values_def)

lemma strftime_noon: "strftime noon = ''20240307_120005''"
  by (simp add: strftime_def noon_def four_digits_def two_digits_def digit_def)

lemma strftime_just_after_noon: "strftime just_after_noon = ''20240307_120005''"
  by (simp add: strftime_def just_after_noon_def noon_def four_digits_def two_digits_def
      digit_def)

section \<open>The claims\<close>

text \<open>
  C1. In every run of either pipeline the catalog publisher \<open>write_output_json\<close> is
  entered exactly once, as the last step of the run, whatever the job file, the external
  programs, the metadata files or the copy did: the log of the run holds exactly one
  write to the catalog file, it is to the path given on the command line, and it is the
  last event. The AMRFinderPlus run enters \<open>cleanup\<close> exactly once as well.
\<close>

theorem publisher_runs_exactly_once:
  "calls Write_output_json (log (snd (amr_main env p))) = 1
   \<and> calls Cleanup (log (snd (amr_main env p))) = 1
   \<and> map fst (dumps (log (snd (amr_main env p)))) = [p]
   \<and> (\<exists>doc. last (log (snd (amr_main env p))) = Dump p doc)
   \<and> calls Write_output_json (log (snd (mlst_main env' p' now d))) = 1
   \<and> map fst (dumps (log (snd (mlst_main env' p' now d)))) = [p']
   \<and> (\<exists>doc. last (log (snd (mlst_main env' p' now d))) = Dump p' doc)"
proof -
  obtain doc where l: "log (snd (amr_main env p)) =
     log (snd (amr_body env (amr_init p))) @ [Call Cleanup, Call Write_output_json, Dump p doc]"
    using amr_main_log_shape by blast
  have a1: "calls Write_output_json (log (snd (amr_main env p))) = 1"
    by (simp add: l calls_simps amr_body_calls amr_init_log)
  have a2: "calls Cleanup (log (snd (amr_main env p))) = 1"
    by (simp add: l calls_simps amr_body_calls amr_init_log)
  have a3: "map fst (dumps (log (snd (amr_main env p)))) = [p]"
    by (simp add: l dumps_simps amr_body_dumps amr_init_log)
  have a4: "\<exists>doc. last (log (snd (amr_main env p))) = Dump p doc"
    by (simp add: l)
  have m1: "calls Write_output_json (log (snd (mlst_main env' p' now d))) = 1"
    by (rule mlst_main_calls)
  have m2: "map fst (dumps (log (snd (mlst_main env' p' now d)))) = [p']"
    by (simp add: mlst_main_dumps)
  have m3: "\<exists>doc. last (log (snd (mlst_main env' p' now d))) = Dump p' doc"
    by (simp add: mlst_main_last)
  from a1 a2 a3 a4 m1 m2 m3 show ?thesis by blast
qed

theorem publisher_runs_exactly_once_witness:
  "calls Write_output_json (log (snd (amr_main amr_env_no_job_file ''job.json''))) = 1
   \<and> calls Cleanup (log (snd (amr_main amr_env_no_job_file ''job.json''))) = 1
   \<and> map fst (dumps (log (snd (amr_main amr_env_no_job_file ''job.json'')))) = [''job.json'']
   \<and> (\<exists>doc. last (log (snd (amr_main amr_env_no_job_file ''job.json''))) = Dump ''job.json'' doc)
   \<and> calls Write_output_json (log (snd (mlst_main mlst_env_download_fails ''job.json'' noon empty_disk))) = 1
   \<and> map fst (dumps (log (snd (mlst_main mlst_env_download_fails ''job.json'' noon empty_disk)))) = [''job.json'']
   \<and> (\<exists>doc. last (log (snd (mlst_main mlst_env_download_fails ''job.json'' noon empty_disk))) = Dump ''job.json'' doc)"
  by (rule publisher_runs_exactly_once)

text \<open>
  C2, as amended. When the database updater does not return 0, a version file is missing
  or the copy fails, the AMRFinderPlus run still writes the catalog file, and the entry
  carries the sentinel: value \<open>amrfinderplus_unknown_unknown\<close>, name
  \<open>unknown (unknown)\<close>, db\_version \<open>unknown\<close>. Every MLST run writes the catalog
  file too, but its entry has no version or format field: value and name are
  \<open>mlst_database_<timestamp>\<close> and path is \<open>mlst-db\<close>, failed stage or not.
\<close>

theorem failed_run_publishes_sentinel:
  "(amrfinder_update env \<noteq> Returned 0 \<or> version_txt env = None
      \<or> database_format_version_txt env = None \<or> \<not> copytree_ok env
    \<longrightarrow> dumps (log (snd (amr_main env p))) =
         [(p, JDict [(''data_tables'',
            JDict [(''amrfinderplus_versioned_database'',
              JList [JDict
                [(''value'', JStr ''amrfinderplus_unknown_unknown''),
                 (''name'', JStr ''unknown (unknown)''),
                 (''db_version'', JStr ''unknown''),
                 (''path'', JStr ''amrfinderplus-db'')]])])])])
   \<and> dumps (log (snd (mlst_main env' p' now d))) =
         [(p', JDict [(''data_tables'',
            JDict [(''mlst'',
              JList [JDict
                [(''value'', JStr (''mlst_database_'' @ strftime now)),
                 (''name'', JStr (''mlst_database_'' @ strftime now)),
                 (''path'', JStr ''mlst-db'')]])])])]"
proof (intro conjI impI)
  assume "amrfinder_update env \<noteq> Returned 0 \<or> version_txt env = None
      \<or> database_format_version_txt env = None \<or> \<not> copytree_ok env"
  then have "fst (amr_body env (amr_init p)) \<noteq> None"
    by (auto simp: amr_body_success)
  then show "dumps (log (snd (amr_main env p))) =
         [(p, JDict [(''data_tables'',
            JDict [(''amrfinderplus_versioned_database'',
              JList [JDict
                [(''value'', JStr ''amrfinderplus_unknown_unknown''),
                 (''name'', JStr ''unknown (unknown)''),
                 (''db_version'', JStr ''unknown''),
                 (''path'', JStr ''amrfinderplus-db'')]])])])]"
    by (rule amr_main_dumps_failure)
next
  show "dumps (log (snd (mlst_main env' p' now d))) =
         [(p', JDict [(''data_tables'',
            JDict [(''mlst'',
              JList [JDict
                [(''value'', JStr (''mlst_database_'' @ strftime now)),
                 (''name'', JStr (''mlst_database_'' @ strftime now)),
                 (''path'', JStr ''mlst-db'')]])])])]"
    by (rule mlst_main_dumps)
qed

theorem failed_run_publishes_sentinel_witness:
  "amrfinder_update amr_env_update_fails = Returned 1
   \<and> dumps (log (snd (amr_main amr_env_update_fails ''job.json''))) =
         [(''job.json'', JDict [(''data_tables'',
            JDict [(''amrfinderplus_versioned_database'',
              JList [JDict
                [(''value'', JStr ''amrfinderplus_unknown_unknown''),
                 (''name'', JStr ''unknown (unknown)''),
                 (''db_version'', JStr ''unknown''),
                 (''path'', JStr ''amrfinderplus-db'')]])])])]
   \<and> dumps (log (snd (mlst_main mlst_env_download_fails ''job.json'' noon empty_disk))) =
         [(''job.json'', JDict [(''data_tables'',
            JDict [(''mlst'',
              JList [JDict
                [(''value'', JStr (''mlst_database_'' @ strftime noon)),
                 (''name'', JStr (''mlst_database_'' @ strftime noon)),
                 (''path'', JStr ''mlst-db'')]])])])]"
proof -
  have r: "amrfinder_update amr_env_update_fails = Returned 1"
    by (simp add: amr_env_update_fails_def amr_env_ok_def)
  then have h: "amrfinder_update amr_env_update_fails \<noteq> Returned 0
      \<or> version_txt amr_env_update_fails = None
      \<or> database_format_version_txt amr_env_update_fails = None
      \<or> \<not> copytree_ok amr_env_update_fails"
    by simp
  show ?thesis
    using r h failed_run_publishes_sentinel[of amr_env_update_fails "''job.json''"
        mlst_env_download_fails "''job.json''" noon empty_disk]
    by blast
qed

text \<open>
  The claim as written fails for the MLST pipeline: with a downloader that returns 2,
  no field of the published entry is \<open>unknown\<close>.
\<close>

theorem mlst_failure_has_no_sentinel:
  "mlst_download_pub_mlst mlst_env_download_fails = Returned 2
   \<and> map (\<lambda>(p, doc). entry_fields doc)
       (dumps (log (snd (mlst_main mlst_env_download_fails ''job.json'' noon empty_disk)))) =
     [[(''value'', JStr ''mlst_database_20240307_120005''),
       (''name'', JStr ''mlst_database_20240307_120005''),
       (''path'', JStr ''mlst-db'')]]"
  by (simp add: mlst_main_dumps strftime_noon mlst_env_download_fails_def mlst_env_ok_def)

text \<open>
  C3, as amended. The exclusion test is applied to each line on its own: what the merge
  writes for a file is, in order, every line that does not contain \<open>not a locus\<close>,
  identifier lines rewritten and the others verbatim. A line that contains the marker
  and does not start with \<open>>\<close> never appears in the output.
\<close>

theorem line_filter:
  "merge_lines scheme ls =
     map (\<lambda>l. if startswith l ''>'' then ''>'' @ scheme @ ''.'' @ drop 1 l else l)
       (filter (\<lambda>l. \<not> py_in ''not a locus'' l) ls)
   \<and> (\<forall>l\<in>set ls. py_in ''not a locus'' l \<and> \<not> startswith l ''>'' \<longrightarrow>
         l \<notin> set (merge_lines scheme ls))"
proof
  show "merge_lines scheme ls =
     map (\<lambda>l. if startswith l ''>'' then ''>'' @ scheme @ ''.'' @ drop 1 l else l)
       (filter (\<lambda>l. \<not> py_in ''not a locus'' l) ls)"
    by (rule merge_lines_map_filter)
  show "\<forall>l\<in>set ls. py_in ''not a locus'' l \<and> \<not> startswith l ''>'' \<longrightarrow>
         l \<notin> set (merge_lines scheme ls)"
  proof (intro ballI impI notI)
    fix l
    assume l: "py_in ''not a locus'' l \<and> \<not> startswith l ''>''"
      and "l \<in> set (merge_lines scheme ls)"
    then obtain x where x: "\<not> py_in ''not a locus'' x"
      and e: "l = (if startswith x ''>'' then ''>'' @ scheme @ ''.'' @ drop 1 x else x)"
      by (auto simp: merge_lines_map_filter)
    show False
    proof (cases "startswith x ''>''")
      case True
      with e have "startswith l ''>''" by (simp add: startswith_def)
      with l show False by simp
    next
      case False
      with e x l show False by simp
    qed
  qed
qed

theorem line_filter_witness:
  "merge_lines ''ecoli'' [''>adk_1\<newline>'', ''GGGGAAAGGGACTC\<newline>'', ''NNNN not a locus\<newline>''] =
     [''>ecoli.adk_1\<newline>'', ''GGGGAAAGGGACTC\<newline>'']
   \<and> py_in ''not a locus'' ''NNNN not a locus\<newline>''
   \<and> \<not> startswith ''NNNN not a locus\<newline>'' ''>''
   \<and> ''NNNN not a locus\<newline>''
       \<notin> set (merge_lines ''ecoli'' [''>adk_1\<newline>'', ''GGGGAAAGGGACTC\<newline>'', ''NNNN not a locus\<newline>''])"
proof -
  let ?ls = "[''>adk_1\<newline>'', ''GGGGAAAGGGACTC\<newline>'', ''NNNN not a locus\<newline>'']"
  have h: "py_in ''not a locus'' ''NNNN not a locus\<newline>''
      \<and> \<not> startswith ''NNNN not a locus\<newline>'' ''>''"
    by (simp add: startswith_def)
  have m: "''NNNN not a locus\<newline>'' \<in> set ?ls" by simp
  have "merge_lines ''ecoli'' ?ls =
     map (\<lambda>l. if startswith l ''>'' then ''>'' @ ''ecoli'' @ ''.'' @ drop 1 l else l)
       (filter (\<lambda>l. \<not> py_in ''not a locus'' l) ?ls)"
    and a: "\<forall>l\<in>set ?ls. py_in ''not a locus'' l \<and> \<not> startswith l ''>'' \<longrightarrow>
         l \<notin> set (merge_lines ''ecoli'' ?ls)"
    using line_filter[of "''ecoli''" ?ls] by blast+
  then have "merge_lines ''ecoli'' ?ls = [''>ecoli.adk_1\<newline>'', ''GGGGAAAGGGACTC\<newline>'']"
    by (simp add: startswith_def)
  moreover from a m h have "''NNNN not a locus\<newline>'' \<notin> set (merge_lines ''ecoli'' ?ls)"
    by blast
  ultimately show ?thesis using h by blast
qed

text \<open>
  The claim as written fails: the file below is one record whose body contains the
  marker, and its identifier line and its other body line are still written.
\<close>

theorem record_with_marker_survives:
  "spec_records [''>adk_1\<newline>'', ''GGGGAAAGGGACTC\<newline>'', ''NNNN not a locus\<newline>''] =
     [(''>adk_1\<newline>'', [''GGGGAAAGGGACTC\<newline>'', ''NNNN not a locus\<newline>''])]
   \<and> py_in ''not a locus'' ''NNNN not a locus\<newline>''
   \<and> merge_lines ''ecoli'' [''>adk_1\<newline>'', ''GGGGAAAGGGACTC\<newline>'', ''NNNN not a locus\<newline>''] =
     [''>ecoli.adk_1\<newline>'', ''GGGGAAAGGGACTC\<newline>'']"
  by (simp add: startswith_def write_line_def)

text \<open>
  C4. The combined file is opened in append mode. Two runs with the same downloaded
  bundle and the same output directory leave the merged text once after the first run
  and twice after the second (\<open>make_blast_database_appends\<close> is the general fact).
\<close>

theorem merge_twice_appends:
  "blast_file (files (snd (mlst_main mlst_env_ok ''job.json'' noon empty_disk))) =
     Some ''>ecoli.adk_1\<newline>GGGGAAAGGGACTC\<newline>''
   \<and> blast_file (files (snd (mlst_main mlst_env_ok ''job.json'' one_o_clock
        (files (snd (mlst_main mlst_env_ok ''job.json'' noon empty_disk)))))) =
     Some ''>ecoli.adk_1\<newline>GGGGAAAGGGACTC\<newline>>ecoli.adk_1\<newline>GGGGAAAGGGACTC\<newline>''"
  by (simp add: mlst_ok_run_files empty_disk_def)

text \<open>
  C5. An identifier line that passes the filter is written as \<open>>\<close>, the scheme name,
  a dot, and then the rest of the line unchanged, at the place of the line in the file:
  what comes before and after it is written as it would be without it.
\<close>

theorem identifier_line_rewritten:
  assumes "\<not> py_in ''not a locus'' (CHR ''>'' # rest)"
  shows "merge_lines scheme (before @ (CHR ''>'' # rest) # after) =
           merge_lines scheme before @ (CHR ''>'' # scheme @ ''.'' @ rest) # merge_lines scheme after"
proof -
  have "merge_lines scheme (before @ (CHR ''>'' # rest) # after) =
          merge_lines scheme before @ merge_lines scheme ((CHR ''>'' # rest) # after)"
    by (rule merge_lines_append)
  also have "merge_lines scheme ((CHR ''>'' # rest) # after) =
          (CHR ''>'' # scheme @ ''.'' @ rest) # merge_lines scheme after"
    using assms by (simp add: write_line_identifier)
  finally show ?thesis .
qed

theorem identifier_line_rewritten_witness:
  "\<not> py_in ''not a locus'' ''>adk_1\<newline>'' \<and>
   merge_lines ''ecoli'' ([''>abcZ_7\<newline>'', ''TTTGATACC\<newline>''] @ ''>adk_1\<newline>'' # [''GGGGAAAGGGACTC\<newline>'']) =
     [''>ecoli.abcZ_7\<newline>'', ''TTTGATACC\<newline>'', ''>ecoli.adk_1\<newline>'', ''GGGGAAAGGGACTC\<newline>'']"
proof -
  have h: "\<not> py_in ''not a locus'' (CHR ''>'' # ''adk_1\<newline>'')"
    by (simp add: startswith_def)
  have "merge_lines ''ecoli'' ([''>abcZ_7\<newline>'', ''TTTGATACC\<newline>''] @ (CHR ''>'' # ''adk_1\<newline>'') # [''GGGGAAAGGGACTC\<newline>'']) =
     merge_lines ''ecoli'' [''>abcZ_7\<newline>'', ''TTTGATACC\<newline>''] @ (CHR ''>'' # ''ecoli'' @ ''.'' @ ''adk_1\<newline>'') # merge_lines ''ecoli'' [''GGGGAAAGGGACTC\<newline>'']"
    by (rule identifier_line_rewritten[OF h])
  also have "\<dots> = [''>ecoli.abcZ_7\<newline>'', ''TTTGATACC\<newline>'', ''>ecoli.adk_1\<newline>'', ''GGGGAAAGGGACTC\<newline>'']"
    by (simp add: write_line_def startswith_def)
  finally show ?thesis using h by simp
qed

text \<open>
  C6, as amended. The AMRFinderPlus run always exits with status 0. The MLST run exits
  with status 1 exactly when the job file was read, the output directory was made and the
  scheme downloader ran and returned a nonzero status; in every other case, a
  downloader that cannot be started included, it exits with status 0.
\<close>

theorem exit_status_of_runs:
  "fst (amr_main env p) = 0
   \<and> fst (mlst_main env' p' now d) =
       (if (\<exists>x. job_file env' = Params x \<and> can_mkdir env' x)
           \<and> (\<exists>k. mlst_download_pub_mlst env' = Returned k \<and> k \<noteq> 0) then 1 else 0)"
  using amr_main_exit[of env p] mlst_main_exit[of env' p' now d] by (rule conjI)

theorem exit_status_of_runs_witness:
  "fst (amr_main amr_env_update_fails ''job.json'') = 0
   \<and> fst (mlst_main mlst_env_not_started ''job.json'' noon empty_disk) = 0"
  using exit_status_of_runs[of amr_env_update_fails "''job.json''" mlst_env_not_started
      "''job.json''" noon empty_disk]
  by (simp add: mlst_env_not_started_def mlst_env_ok_def)

text \<open>
  The claim as written fails: a downloader that starts and returns 2 gives exit status
  1, and one that cannot be started gives exit status 0.
\<close>

theorem nonzero_download_exits_1:
  "mlst_download_pub_mlst mlst_env_download_fails = Returned 2
   \<and> fst (mlst_main mlst_env_download_fails ''job.json'' noon empty_disk) = 1
   \<and> mlst_download_pub_mlst mlst_env_not_started = NotStarted
   \<and> fst (mlst_main mlst_env_not_started ''job.json'' noon empty_disk) = 0"
  by (simp add: mlst_main_exit mlst_env_download_fails_def mlst_env_not_started_def
      mlst_env_ok_def)

text \<open>
  C7. The first lines \<open>3.12\<close> and \<open>2024-01-01.1\<close>, each followed by a newline,
  resolve to those strings; a run whose stages succeed ends with the stripped first line
  of each metadata file as its version and format; and when either file is missing the
  run still exits with status 0, with the sentinel \<open>unknown\<close> as version and format
  and the sentinel entry in the catalog file.
\<close>

theorem version_resolution:
  "strip (readline ''3.12\<newline>'') = ''3.12''
   \<and> strip (readline ''2024-01-01.1\<newline>'') = ''2024-01-01.1''
   \<and> ((\<exists>x. job_file env = Params x \<and> can_mkdir env x
             \<and> can_mkdir env (path_join x ''tmp_download''))
        \<and> amrfinder_update env = Returned 0 \<and> copytree_ok env
        \<and> version_txt env = Some f \<and> database_format_version_txt env = Some g
      \<longrightarrow> fst (amr_main env p) = 0
          \<and> version (snd (amr_main env p)) = Some (strip (readline f))
          \<and> dbformat (snd (amr_main env p)) = Some (strip (readline g)))
   \<and> (version_txt env' = None \<or> database_format_version_txt env' = None
      \<longrightarrow> fst (amr_main env' p') = 0
          \<and> version (snd (amr_main env' p')) = Some ''unknown''
          \<and> dbformat (snd (amr_main env' p')) = Some ''unknown''
          \<and> dumps (log (snd (amr_main env' p'))) =
              [(p', JDict [(''data_tables'',
                 JDict [(''amrfinderplus_versioned_database'',
                   JList [JDict
                     [(''value'', JStr ''amrfinderplus_unknown_unknown''),
                      (''name'', JStr ''unknown (unknown)''),
                      (''db_version'', JStr ''unknown''),
                      (''path'', JStr ''amrfinderplus-db'')]])])])])"
proof (intro conjI impI)
  show "strip (readline ''3.12\<newline>'') = ''3.12''"
    by (rule strip_readline_samples)
  show "strip (readline ''2024-01-01.1\<newline>'') = ''2024-01-01.1''"
    by (rule strip_readline_samples)
next
  assume a: "(\<exists>x. job_file env = Params x \<and> can_mkdir env x
             \<and> can_mkdir env (path_join x ''tmp_download''))
        \<and> amrfinder_update env = Returned 0 \<and> copytree_ok env
        \<and> version_txt env = Some f \<and> database_format_version_txt env = Some g"
  then have ok: "fst (amr_body env (amr_init p)) = None"
    by (simp add: amr_body_success)
  from a have f: "version_txt env = Some f" and g: "database_format_version_txt env = Some g"
    by simp_all
  show "fst (amr_main env p) = 0" by (rule amr_main_exit)
  show "version (snd (amr_main env p)) = Some (strip (readline f))"
    by (rule amr_main_descriptor_success[OF ok f g])
  show "dbformat (snd (amr_main env p)) = Some (strip (readline g))"
    by (rule amr_main_descriptor_success[OF ok f g])
next
  assume a: "version_txt env' = None \<or> database_format_version_txt env' = None"
  then have bad: "fst (amr_body env' (amr_init p')) \<noteq> None"
    by (auto simp: amr_body_success)
  show "fst (amr_main env' p') = 0" by (rule amr_main_exit)
  show "version (snd (amr_main env' p')) = Some ''unknown''"
    by (rule amr_main_descriptor_failure[OF bad])
  show "dbformat (snd (amr_main env' p')) = Some ''unknown''"
    by (rule amr_main_descriptor_failure[OF bad])
  show "dumps (log (snd (amr_main env' p'))) =
              [(p', JDict [(''data_tables'',
                 JDict [(''amrfinderplus_versioned_database'',
                   JList [JDict
                     [(''value'', JStr ''amrfinderplus_unknown_unknown''),
                      (''name'', JStr ''unknown (unknown)''),
                      (''db_version'', JStr ''unknown''),
                      (''path'', JStr ''amrfinderplus-db'')]])])])]"
    by (rule amr_main_dumps_failure[OF bad])
qed

theorem version_resolution_witness:
  "version (snd (amr_main amr_env_ok ''job.json'')) = Some ''3.12''
   \<and> dbformat (snd (amr_main amr_env_ok ''job.json'')) = Some ''2024-01-01.1''
   \<and> version_txt amr_env_no_version = None
   \<and> fst (amr_main amr_env_no_version ''job.json'') = 0
   \<and> version (snd (amr_main amr_env_no_version ''job.json'')) = Some ''unknown''
   \<and> dbformat (snd (amr_main amr_env_no_version ''job.json'')) = Some ''unknown''"
proof -
  have h1: "(\<exists>x. job_file amr_env_ok = Params x \<and> can_mkdir amr_env_ok x
             \<and> can_mkdir amr_env_ok (path_join x ''tmp_download''))
        \<and> amrfinder_update amr_env_ok = Returned 0 \<and> copytree_ok amr_env_ok
        \<and> version_txt amr_env_ok = Some ''3.12\<newline>''
        \<and> database_format_version_txt amr_env_ok = Some ''2024-01-01.1\<newline>''"
    by (simp add: amr_env_ok_def)
  have h2: "version_txt amr_env_no_version = None \<or> database_format_version_txt amr_env_no_version = None"
    by (simp add: amr_env_no_version_def)
  have h3: "version_txt amr_env_no_version = None"
    by (simp add: amr_env_no_version_def)
  show ?thesis
    using h1 h2 h3 version_resolution[of amr_env_ok "''3.12\<newline>''" "''2024-01-01.1\<newline>''"
        "''job.json''" amr_env_no_version "''job.json''"]
    by simp
qed

text \<open>
  C8, as amended. The \<open>value\<close> field is a function of the descriptor or of the
  timestamp: \<open>amrfinderplus_<version>_<dbformat>\<close> for the version and format the run
  ends with, \<open>mlst_database_<timestamp>\<close> for the timestamp, to the second, taken at
  construction. Runs with the same descriptor, or constructed within the same second,
  get the same value.
\<close>

theorem value_from_descriptor_or_timestamp:
  "(\<exists>v f. version (snd (amr_main env p)) = Some v \<and> dbformat (snd (amr_main env p)) = Some f
      \<and> catalog_values (log (snd (amr_main env p))) =
          [Some (JStr (''amrfinderplus_'' @ v @ ''_'' @ f))])
   \<and> catalog_values (log (snd (mlst_main env' p' now d))) =
       [Some (JStr (''mlst_database_'' @ strftime now))]"
proof
  show "\<exists>v f. version (snd (amr_main env p)) = Some v \<and> dbformat (snd (amr_main env p)) = Some f
      \<and> catalog_values (log (snd (amr_main env p))) =
          [Some (JStr (''amrfinderplus_'' @ v @ ''_'' @ f))]"
  proof (cases "fst (amr_body env (amr_init p))")
    case None
    then obtain f g where fg: "version_txt env = Some f" "database_format_version_txt env = Some g"
      using amr_body_success[of env p] by auto
    show ?thesis
      using amr_main_descriptor_success[OF None fg]
        catalog_values_single[OF amr_main_dumps_success[OF None fg]]
      by simp
  next
    case (Some e)
    then have bad: "fst (amr_body env (amr_init p)) \<noteq> None" by simp
    show ?thesis
      using amr_main_descriptor_failure[OF bad]
        catalog_values_single[OF amr_main_dumps_failure[OF bad]]
      by simp
  qed
  show "catalog_values (log (snd (mlst_main env' p' now d))) =
       [Some (JStr (''mlst_database_'' @ strftime now))]"
    using catalog_values_single[OF mlst_main_dumps[of env' p' now d]] by simp
qed

theorem value_from_descriptor_or_timestamp_witness:
  "(\<exists>v f. version (snd (amr_main amr_env_ok ''job.json'')) = Some v
      \<and> dbformat (snd (amr_main amr_env_ok ''job.json'')) = Some f
      \<and> catalog_values (log (snd (amr_main amr_env_ok ''job.json''))) =
          [Some (JStr (''amrfinderplus_'' @ v @ ''_'' @ f))])
   \<and> catalog_values (log (snd (mlst_main mlst_env_ok ''job.json'' noon empty_disk))) =
       [Some (JStr (''mlst_database_'' @ strftime noon))]"
  by (rule value_from_descriptor_or_timestamp)

text \<open>
  The claim as written fails: two AMRFinderPlus runs on different jobs that find the
  same database version publish the same value, and so do two MLST runs constructed
  a quarter of a second apart.
\<close>

theorem repeated_runs_share_value:
  "job_file amr_env_ok = Params ''/tmp/x'' \<and> job_file amr_env_other_job = Params ''/tmp/y''
   \<and> catalog_values (log (snd (amr_main amr_env_ok ''first.json''))) =
       [Some (JStr ''amrfinderplus_3.12_2024-01-01.1'')]
   \<and> catalog_values (log (snd (amr_main amr_env_other_job ''second.json''))) =
       [Some (JStr ''amrfinderplus_3.12_2024-01-01.1'')]
   \<and> microsecond noon = 0 \<and> microsecond just_after_noon = 250000
   \<and> catalog_values (log (snd (mlst_main mlst_env_ok ''first.json'' noon empty_disk))) =
       [Some (JStr ''mlst_database_20240307_120005'')]
   \<and> catalog_values (log (snd (mlst_main mlst_env_ok ''second.json'' just_after_noon empty_disk))) =
       [Some (JStr ''mlst_database_20240307_120005'')]"
proof -
  have f1: "version_txt amr_env_ok = Some ''3.12\<newline>''"
    and g1: "database_format_version_txt amr_env_ok = Some ''2024-01-01.1\<newline>''"
    by (simp_all add: amr_env_ok_def)
  have f2: "version_txt amr_env_other_job = Some ''3.12\<newline>''"
    and g2: "database_format_version_txt amr_env_other_job = Some ''2024-01-01.1\<newline>''"
    by (simp_all add: amr_env_other_job_def amr_env_ok_def)
  have a: "catalog_values (log (snd (amr_main amr_env_ok ''first.json''))) =
       [Some (JStr ''amrfinderplus_3.12_2024-01-01.1'')]"
    using catalog_values_single[OF amr_main_dumps_success[OF amr_env_ok_success f1 g1,
          of "''first.json''"]]
    by (simp add: strip_def isspace_def)
  have b: "catalog_values (log (snd (amr_main amr_env_other_job ''second.json''))) =
       [Some (JStr ''amrfinderplus_3.12_2024-01-01.1'')]"
    using catalog_values_single[OF amr_main_dumps_success[OF amr_env_other_job_success f2 g2,
          of "''second.json''"]]
    by (simp add: strip_def isspace_def)
  have c: "catalog_values (log (snd (mlst_main mlst_env_ok ''first.json'' noon empty_disk))) =
       [Some (JStr ''mlst_database_20240307_120005'')]"
    using catalog_values_single[OF mlst_main_dumps[of mlst_env_ok "''first.json''" noon empty_disk]]
    by (simp add: strftime_noon)
  have d: "catalog_values (log (snd (mlst_main mlst_env_ok ''second.json'' just_after_noon empty_disk))) =
       [Some (JStr ''mlst_database_20240307_120005'')]"
    using catalog_values_single[OF mlst_main_dumps[of mlst_env_ok "''second.json''" just_after_noon empty_disk]]
    by (simp add: strftime_just_after_noon)
  have e: "job_file amr_env_ok = Params ''/tmp/x'' \<and> job_file amr_env_other_job = Params ''/tmp/y''
      \<and> microsecond noon = 0 \<and> microsecond just_after_noon = 250000"
    by (simp add: amr_env_ok_def amr_env_other_job_def noon_def just_after_noon_def)
  from a b c d e show ?thesis by simp
qed

text \<open>
  C9. The marker is tested on each line, not on each record. A body line with the
  marker is dropped while the identifier line (rewritten) and the other body lines of
  the record are written; an identifier line with the marker is dropped while the body
  lines after it are written.
\<close>

theorem exclusion_is_per_line:
  "(\<not> py_in ''not a locus'' (CHR ''>'' # rest) \<and> py_in ''not a locus'' m
      \<and> (\<forall>l\<in>set (b1 @ b2). \<not> py_in ''not a locus'' l \<and> \<not> startswith l ''>'')
    \<longrightarrow> merge_lines scheme ((CHR ''>'' # rest) # b1 @ m # b2) =
          (CHR ''>'' # scheme @ ''.'' @ rest) # b1 @ b2)
   \<and> (py_in ''not a locus'' (CHR ''>'' # rest')
      \<and> (\<forall>l\<in>set body. \<not> py_in ''not a locus'' l \<and> \<not> startswith l ''>'')
    \<longrightarrow> merge_lines scheme' ((CHR ''>'' # rest') # body) = body)"
proof (intro conjI impI)
  assume a: "\<not> py_in ''not a locus'' (CHR ''>'' # rest) \<and> py_in ''not a locus'' m
      \<and> (\<forall>l\<in>set (b1 @ b2). \<not> py_in ''not a locus'' l \<and> \<not> startswith l ''>'')"
  then have b1: "merge_lines scheme b1 = b1" and b2: "merge_lines scheme b2 = b2"
    by (auto intro: merge_lines_body)
  from a show "merge_lines scheme ((CHR ''>'' # rest) # b1 @ m # b2) =
          (CHR ''>'' # scheme @ ''.'' @ rest) # b1 @ b2"
    by (simp add: merge_lines_append write_line_identifier write_line_marker b1 b2)
next
  assume a: "py_in ''not a locus'' (CHR ''>'' # rest')
      \<and> (\<forall>l\<in>set body. \<not> py_in ''not a locus'' l \<and> \<not> startswith l ''>'')"
  then have "merge_lines scheme' body = body"
    by (auto intro: merge_lines_body)
  with a show "merge_lines scheme' ((CHR ''>'' # rest') # body) = body"
    by (simp add: write_line_marker)
qed

theorem exclusion_is_per_line_witness:
  "merge_lines ''ecoli'' (''>adk_1\<newline>'' # [''GGGG\<newline>''] @ ''NNNN not a locus\<newline>'' # [''AAAG\<newline>'']) =
     ''>ecoli.adk_1\<newline>'' # [''GGGG\<newline>''] @ [''AAAG\<newline>'']
   \<and> merge_lines ''senterica'' (''>not a locus 7\<newline>'' # [''TTTG\<newline>'', ''ATAC\<newline>'']) =
     [''TTTG\<newline>'', ''ATAC\<newline>'']"
proof -
  have h1: "\<not> py_in ''not a locus'' (CHR ''>'' # ''adk_1\<newline>'')
      \<and> py_in ''not a locus'' ''NNNN not a locus\<newline>''
      \<and> (\<forall>l\<in>set ([''GGGG\<newline>''] @ [''AAAG\<newline>'']).
            \<not> py_in ''not a locus'' l \<and> \<not> startswith l ''>'')"
    by (simp add: startswith_def)
  have h2: "py_in ''not a locus'' (CHR ''>'' # ''not a locus 7\<newline>'')
      \<and> (\<forall>l\<in>set [''TTTG\<newline>'', ''ATAC\<newline>''].
            \<not> py_in ''not a locus'' l \<and> \<not> startswith l ''>'')"
    by (simp add: startswith_def)
  note t = exclusion_is_per_line[of "''adk_1\<newline>''" "''NNNN not a locus\<newline>''"
        "[''GGGG\<newline>'']" "[''AAAG\<newline>'']" "''ecoli''" "''not a locus 7\<newline>''"
        "[''TTTG\<newline>'', ''ATAC\<newline>'']" "''senterica''"]
  have a: "merge_lines ''ecoli''
        ((CHR ''>'' # ''adk_1\<newline>'') # [''GGGG\<newline>''] @ ''NNNN not a locus\<newline>'' # [''AAAG\<newline>'']) =
      (CHR ''>'' # ''ecoli'' @ ''.'' @ ''adk_1\<newline>'') # [''GGGG\<newline>''] @ [''AAAG\<newline>'']"
    by (rule t[THEN conjunct1, THEN mp, OF h1])
  have b: "merge_lines ''senterica'' ((CHR ''>'' # ''not a locus 7\<newline>'') # [''TTTG\<newline>'', ''ATAC\<newline>'']) =
      [''TTTG\<newline>'', ''ATAC\<newline>'']"
    by (rule t[THEN conjunct2, THEN mp, OF h2])
  from a have a': "merge_lines ''ecoli''
        (''>adk_1\<newline>'' # [''GGGG\<newline>''] @ ''NNNN not a locus\<newline>'' # [''AAAG\<newline>'']) =
      ''>ecoli.adk_1\<newline>'' # [''GGGG\<newline>''] @ [''AAAG\<newline>'']"
    by (simp only: append.simps)
  from b have b': "merge_lines ''senterica'' (''>not a locus 7\<newline>'' # [''TTTG\<newline>'', ''ATAC\<newline>'']) =
      [''TTTG\<newline>'', ''ATAC\<newline>'']"
    .
  from a' b' show ?thesis by (rule conjI)
qed

text \<open>
  C10. The MLST entry is fixed when the object is constructed: \<open>db_name\<close> is
  \<open>mlst_database_<timestamp>\<close>, no stage changes it, and the one document written has
  value and name \<open>db_name\<close> and path \<open>mlst-db\<close>. Two runs on the same job file whose
  timestamps agree write the same document, whatever their stages did.
\<close>

theorem mlst_entry_fixed_at_construction:
  "db_name (mlst_init p now d) = ''mlst_database_'' @ strftime now
   \<and> db_name (snd (mlst_main env p now d)) = db_name (mlst_init p now d)
   \<and> map (\<lambda>(q, doc). (q, entry_fields doc)) (dumps (log (snd (mlst_main env p now d)))) =
       [(p, [(''value'', JStr (db_name (mlst_init p now d))),
             (''name'', JStr (db_name (mlst_init p now d))),
             (''path'', JStr ''mlst-db'')])]
   \<and> (strftime now' = strftime now \<longrightarrow>
        dumps (log (snd (mlst_main env' p now' d'))) = dumps (log (snd (mlst_main env p now d))))"
  by (simp add: mlst_main_dumps mlst_main_db_name) (simp add: mlst_init_def)

theorem mlst_entry_fixed_at_construction_witness:
  "strftime just_after_noon = strftime noon
   \<and> fst (mlst_main mlst_env_download_fails ''job.json'' just_after_noon empty_disk) = 1
   \<and> fst (mlst_main mlst_env_ok ''job.json'' noon empty_disk) = 0
   \<and> dumps (log (snd (mlst_main mlst_env_download_fails ''job.json'' just_after_noon empty_disk))) =
       dumps (log (snd (mlst_main mlst_env_ok ''job.json'' noon empty_disk)))"
proof -
  have h: "strftime just_after_noon = strftime noon"
    by (simp add: strftime_noon strftime_just_after_noon)
  have x: "fst (mlst_main mlst_env_download_fails ''job.json'' just_after_noon empty_disk) = 1
     \<and> fst (mlst_main mlst_env_ok ''job.json'' noon empty_disk) = 0"
    by (simp add: mlst_main_exit mlst_env_download_fails_def mlst_env_ok_def)
  show ?thesis
    using h x mlst_entry_fixed_at_construction[of "''job.json''" noon empty_disk mlst_env_ok
        just_after_noon mlst_env_download_fails empty_disk]
    by blast
qed

end
